theory Spec2Isabelle
  imports Main "HOL-Library.Multiset" "HOL-Library.Sublist"
begin

section \<open>Minaret prayer player: schedule normalisation and next-prayer scheduling\<close>

text \<open>
  A shallow embedding of the scheduling core of the \<^verbatim>\<open>azan\<close> integration:
  \<^verbatim>\<open>coordinator.py\<close> (\<^verbatim>\<open>_normalize_times\<close>, \<^verbatim>\<open>_async_update_data\<close>),
  \<^verbatim>\<open>__init__.py\<close> (\<^verbatim>\<open>_schedule_next_prayer\<close>, \<^verbatim>\<open>_prayer_callback\<close>,
  \<^verbatim>\<open>_play_azan\<close>) and \<^verbatim>\<open>sensor.py\<close> (\<^verbatim>\<open>NextPrayerSensor._get_next_prayer\<close>,
  \<^verbatim>\<open>AzanStatusSensor.native_value\<close>).

  Conventions of the model.
  \<^item> Strings are ASCII \<open>char list\<close>s.
  \<^item> A naive local \<^verbatim>\<open>datetime\<close> is the number of microseconds on the local wall
    clock since a fixed midnight; every datetime the code compares carries the same
    \<^verbatim>\<open>tzinfo\<close>, so Python compares the wall-clock values.
  \<^item> An exception that leaves a function is a value \<open>Inl e\<close>.
  \<^item> Each operation reads the clock (\<^verbatim>\<open>dt_util.now()\<close>) once.
  \<^item> \<^verbatim>\<open>coordinator.async_set_updated_data(coordinator.data)\<close> publishes the data it
    already holds to the listeners and changes nothing of the state modelled here, so it
    has no counterpart; logging has none either.
\<close>

subsection \<open>Constants (\<^verbatim>\<open>const.py\<close>)\<close>

definition PRAYER_ORDER :: "string list" where
  "PRAYER_ORDER = [''Fajr'', ''Sunrise'', ''Dhuhr'', ''Asr'', ''Maghrib'', ''Isha'']"

definition SOURCE_ALADHAN :: string where
  "SOURCE_ALADHAN = ''aladhan''"

definition SOURCE_QATAR_MOI :: string where
  "SOURCE_QATAR_MOI = ''qatar_moi''"

definition PLAYBACK_ANDROID_VLC :: string where
  "PLAYBACK_ANDROID_VLC = ''android_vlc''"

definition PLAYBACK_MEDIA_PLAYER :: string where
  "PLAYBACK_MEDIA_PLAYER = ''media_player''"

definition SOUND_OPTION_FULL :: string where
  "SOUND_OPTION_FULL = ''full''"

definition SOUND_OPTION_SHORT :: string where
  "SOUND_OPTION_SHORT = ''short''"

definition SOUND_OPTION_CUSTOM :: string where
  "SOUND_OPTION_CUSTOM = ''custom''"

definition DEFAULT_OFFSET_MINUTES :: int where
  "DEFAULT_OFFSET_MINUTES = 0"

subsection \<open>Python string primitives\<close>

datatype error = ValueError | OverflowError | UpdateFailed | NoURLAvailableError

text \<open>\<^verbatim>\<open>str.isspace\<close> on one ASCII character: TAB, LF, VT, FF, CR, FS, GS, RS, US, space.\<close>

definition py_isspace :: "char \<Rightarrow> bool" where
  "py_isspace c = (let n = (of_char c :: nat) in (9 \<le> n \<and> n \<le> 13) \<or> (28 \<le> n \<and> n \<le> 32))"

text \<open>\<^verbatim>\<open>s.strip()\<close>\<close>

definition strip :: "string \<Rightarrow> string" where
  "strip s = rev (dropWhile py_isspace (rev (dropWhile py_isspace s)))"

text \<open>\<^verbatim>\<open>s.split(sep)\<close> for a one-character separator: never the empty list.\<close>

fun py_split :: "char \<Rightarrow> string \<Rightarrow> string list" where
  "py_split sep [] = [[]]"
| "py_split sep (c # cs) =
     (if c = sep then [] # py_split sep cs
      else (case py_split sep cs of
              p # ps \<Rightarrow> (c # p) # ps
            | [] \<Rightarrow> [[c]]))"

definition is_digit :: "char \<Rightarrow> bool" where
  "is_digit c = (let n = (of_char c :: nat) in 48 \<le> n \<and> n \<le> 57)"

definition digit_val :: "char \<Rightarrow> nat" where
  "digit_val c = of_char c - 48"

text \<open>
  The digit part of a decimal integer literal accepted by \<^verbatim>\<open>int(str)\<close>: one or more
  digits, with single underscores allowed between digits.
\<close>

fun valid_digits :: "string \<Rightarrow> bool" where
  "valid_digits [] = False"
| "valid_digits [c] = is_digit c"
| "valid_digits (c # d # r) =
     (is_digit c \<and> (if d = CHR ''_'' then valid_digits r else valid_digits (d # r)))"

definition digits_value :: "string \<Rightarrow> nat" where
  "digits_value s = foldl (\<lambda>acc c. acc * 10 + digit_val c) 0 (filter is_digit s)"

text \<open>
  The whitespace \<^verbatim>\<open>int()\<close> skips around the literal of an ASCII string: TAB, LF, VT,
  FF, CR and space. Unlike \<^verbatim>\<open>str.strip\<close> it does not skip FS, GS, RS and US.
\<close>

definition int_isspace :: "char \<Rightarrow> bool" where
  "int_isspace c = (let n = (of_char c :: nat) in (9 \<le> n \<and> n \<le> 13) \<or> n = 32)"

text \<open>
  \<^verbatim>\<open>int(s)\<close> for a string: surrounding whitespace is skipped, one sign is allowed, and
  anything else raises \<^verbatim>\<open>ValueError\<close> (here \<open>None\<close>), as does a literal of more than
  4300 digits (the interpreter's default conversion limit).
\<close>

definition py_int :: "string \<Rightarrow> int option" where
  "py_int s =
     (let t = rev (dropWhile int_isspace (rev (dropWhile int_isspace s)));
          neg = (t \<noteq> [] \<and> hd t = CHR ''-'');
          body = (if t \<noteq> [] \<and> (hd t = CHR ''-'' \<or> hd t = CHR ''+'') then tl t else t)
      in if valid_digits body \<and> length (filter is_digit body) \<le> 4300
         then Some (if neg then - int (digits_value body) else int (digits_value body))
         else None)"

text \<open>The decimal digit of a number below ten.\<close>

definition digit_char :: "nat \<Rightarrow> char" where
  "digit_char d = ''0123456789'' ! d"

fun dec :: "nat \<Rightarrow> string" where
  "dec n = (if n < 10 then [digit_char n] else dec (n div 10) @ [digit_char (n mod 10)])"

declare dec.simps [simp del]

text \<open>The format specification \<^verbatim>\<open>{x:02d}\<close>: sign first, then zeros up to width two.\<close>

definition fmt_02d :: "int \<Rightarrow> string" where
  "fmt_02d i =
     (if i < 0 then CHR ''-'' # dec (nat (- i))
      else if i < 10 then CHR ''0'' # dec (nat i)
      else dec (nat i))"

subsection \<open>Datetimes\<close>

type_synonym datetime = int

definition us_per_minute :: int where
  "us_per_minute = 60000000"

definition us_per_day :: int where
  "us_per_day = 86400000000"

text \<open>\<^verbatim>\<open>timedelta(minutes=k)\<close> and \<^verbatim>\<open>timedelta(days=k)\<close>\<close>

definition timedelta_minutes :: "int \<Rightarrow> int" where
  "timedelta_minutes k = k * us_per_minute"

definition timedelta_days :: "int \<Rightarrow> int" where
  "timedelta_days k = k * us_per_day"

text \<open>
  The calendar day of a datetime. Two datetimes have the same
  \<^verbatim>\<open>strftime("%Y-%m-%d")\<close> exactly when they have the same day number.
\<close>

definition date_of :: "datetime \<Rightarrow> int" where
  "date_of t = t div us_per_day"

text \<open>Whether a Python integer fits the C \<^verbatim>\<open>int\<close> that \<^verbatim>\<open>replace\<close> converts it to.\<close>

definition fits_c_int :: "int \<Rightarrow> bool" where
  "fits_c_int i = (- 2147483648 \<le> i \<and> i \<le> 2147483647)"

text \<open>
  \<^verbatim>\<open>t.replace(hour=h, minute=m, second=0, microsecond=0)\<close>: the arguments are
  converted first, which raises \<^verbatim>\<open>OverflowError\<close> for one beyond a C \<^verbatim>\<open>int\<close>; then
  \<^verbatim>\<open>ValueError\<close> is raised unless \<open>0 \<le> h \<le> 23\<close> and \<open>0 \<le> m \<le> 59\<close>.
\<close>

definition replace_hm :: "datetime \<Rightarrow> int \<Rightarrow> int \<Rightarrow> error + datetime" where
  "replace_hm t h m =
     (if \<not> fits_c_int h \<or> \<not> fits_c_int m then Inl OverflowError
      else if 0 \<le> h \<and> h \<le> 23 \<and> 0 \<le> m \<and> m \<le> 59
      then Inr (date_of t * us_per_day + (h * 60 + m) * us_per_minute)
      else Inl ValueError)"

subsection \<open>Configuration and prayer data (\<^verbatim>\<open>coordinator.py\<close>)\<close>

text \<open>
  The merged configuration dictionary \<^verbatim>\<open>{**entry.data, **entry.options}\<close>. An absent
  key is \<open>None\<close>; the two families of per-prayer keys (\<^verbatim>\<open>prayer_fajr\<close>, ... and
  \<^verbatim>\<open>sound_fajr\<close>, ...) are maps from the key.
\<close>

datatype media_player_cfg = Single string | Many "string list"

record config =
  prayer_source :: "string option"
  prayer_toggles :: "string \<rightharpoonup> bool"
  offset_minutes :: "int option"
  playback_mode :: "string option"
  media_player :: "media_player_cfg option"
  notify_service :: "string option"
  external_url :: "string option"
  sounds :: "string \<rightharpoonup> string"

text \<open>\<^verbatim>\<open>d.get(key, default)\<close>\<close>

definition get_or :: "'a option \<Rightarrow> 'a \<Rightarrow> 'a" where
  "get_or v d = (case v of Some x \<Rightarrow> x | None \<Rightarrow> d)"

record prayer =
  name :: string
  time :: datetime
  time_str :: string
  enabled :: bool

record prayer_data =
  prayers :: "prayer list"
  date :: int
  played_today :: "string set"

text \<open>\<^verbatim>\<open>PrayerData(prayers=..., date=...)\<close>: the played-set starts empty.\<close>

definition PrayerData :: "prayer list \<Rightarrow> int \<Rightarrow> prayer_data" where
  "PrayerData ps d = \<lparr>prayers = ps, date = d, played_today = {}\<rparr>"

subsection \<open>\<^verbatim>\<open>_normalize_times\<close>\<close>

definition enabled_map :: "config \<Rightarrow> string \<rightharpoonup> bool" where
  "enabled_map cfg = map_of
     [(''Fajr'', get_or (prayer_toggles cfg ''prayer_fajr'') True),
      (''Sunrise'', get_or (prayer_toggles cfg ''prayer_sunrise'') False),
      (''Dhuhr'', get_or (prayer_toggles cfg ''prayer_dhuhr'') True),
      (''Asr'', get_or (prayer_toggles cfg ''prayer_asr'') True),
      (''Maghrib'', get_or (prayer_toggles cfg ''prayer_maghrib'') True),
      (''Isha'', get_or (prayer_toggles cfg ''prayer_isha'') True)]"

text \<open>\<^verbatim>\<open>xs.index(x)\<close>, with \<open>None\<close> when \<open>x\<close> is not in the list.\<close>

fun index_of :: "'a list \<Rightarrow> 'a \<Rightarrow> nat option" where
  "index_of [] x = None"
| "index_of (y # ys) x = (if y = x then Some 0 else map_option Suc (index_of ys x))"

text \<open>The sort key: \<^verbatim>\<open>PRAYER_ORDER.index(x[0]) if x[0] in PRAYER_ORDER else 99\<close>\<close>

definition order_key :: "string \<times> string \<Rightarrow> nat" where
  "order_key x = (if fst x \<in> set PRAYER_ORDER then the (index_of PRAYER_ORDER (fst x)) else 99)"

text \<open>
  Lines 184 to 195: clean the string, split it at the colons, convert hour and minute and
  apply the afternoon rule. \<open>Inr None\<close> is the \<^verbatim>\<open>continue\<close> for fewer than two parts,
  \<open>Inl ValueError\<close> an \<^verbatim>\<open>int()\<close> that raises.
\<close>

definition clean_time :: "string \<Rightarrow> string" where
  "clean_time s = strip (hd (py_split (CHR ''('') (hd (py_split (CHR '' '') (strip s)))))"

definition parse_time :: "string \<Rightarrow> string \<Rightarrow> error + (int \<times> int) option" where
  "parse_time nm s =
     (let parts = py_split (CHR '':'') (clean_time s)
      in if length parts < 2 then Inr None
         else (case py_int (parts ! 0) of
                 None \<Rightarrow> Inl ValueError
               | Some hour \<Rightarrow>
                  (case py_int (parts ! 1) of
                     None \<Rightarrow> Inl ValueError
                   | Some minute \<Rightarrow>
                       Inr (Some (if nm \<in> {''Asr'', ''Maghrib'', ''Isha''} \<and> hour < 10
                                  then hour + 12 else hour, minute)))))"

text \<open>
  The body of the loop for one entry of a recognised name: \<open>Inr None\<close> when the entry is
  skipped, \<open>Inr (Some p)\<close> when the prayer \<open>p\<close> is appended.
\<close>

definition normalize_entry :: "config \<Rightarrow> datetime \<Rightarrow> string \<Rightarrow> string \<Rightarrow> error + prayer option" where
  "normalize_entry cfg now nm s =
     (case parse_time nm s of
        Inl e \<Rightarrow> Inl e
      | Inr None \<Rightarrow> Inr None
      | Inr (Some (hour, minute)) \<Rightarrow>
          (case replace_hm now hour minute of
             Inl e \<Rightarrow> Inl e
           | Inr prayer_time \<Rightarrow>
               Inr (Some \<lparr>name = nm, time = prayer_time,
                          time_str = fmt_02d hour @ '':'' @ fmt_02d minute,
                          enabled = get_or (enabled_map cfg nm) False\<rparr>)))"

text \<open>The loop over the sorted entries; the first exception ends it.\<close>

fun normalize_loop :: "config \<Rightarrow> datetime \<Rightarrow> (string \<times> string) list \<Rightarrow> error + prayer list" where
  "normalize_loop cfg now [] = Inr []"
| "normalize_loop cfg now ((nm, s) # entries) =
     (if nm \<notin> set PRAYER_ORDER then normalize_loop cfg now entries
      else (case normalize_entry cfg now nm s of
              Inl e \<Rightarrow> Inl e
            | Inr r \<Rightarrow>
               (case normalize_loop cfg now entries of
                  Inl e \<Rightarrow> Inl e
                | Inr ps \<Rightarrow> Inr ((case r of None \<Rightarrow> [] | Some p \<Rightarrow> [p]) @ ps))))"

text \<open>
  The raw mapping is a Python dictionary: an association list in insertion order whose
  keys are distinct. \<^verbatim>\<open>sorted\<close> is stable, as \<open>sort_key\<close> is.
\<close>

definition normalize_times :: "config \<Rightarrow> datetime \<Rightarrow> (string \<times> string) list \<Rightarrow> error + prayer list" where
  "normalize_times cfg now raw = normalize_loop cfg now (sort_key order_key raw)"

subsection \<open>\<^verbatim>\<open>_async_update_data\<close>\<close>

text \<open>
  The two provider fetches are external: each either raises or returns a raw mapping.
  \<open>clock_today\<close> is the \<^verbatim>\<open>datetime.now()\<close> read for \<^verbatim>\<open>today\<close>, \<open>clock_norm\<close> the one
  read inside \<^verbatim>\<open>_normalize_times\<close>; \<open>prev\<close> is \<^verbatim>\<open>self.data\<close> before the refresh.
  An exception of \<^verbatim>\<open>_normalize_times\<close> is outside the \<^verbatim>\<open>try\<close> and leaves the function.
\<close>

definition async_update_data ::
  "config \<Rightarrow> (error + (string \<times> string) list) \<Rightarrow> (error + (string \<times> string) list) \<Rightarrow>
   datetime \<Rightarrow> datetime \<Rightarrow> prayer_data option \<Rightarrow> error + prayer_data" where
  "async_update_data cfg fetch_qatar_moi fetch_aladhan clock_today clock_norm prev =
     (let source = get_or (prayer_source cfg) SOURCE_QATAR_MOI
      in case (if source = SOURCE_QATAR_MOI then fetch_qatar_moi else fetch_aladhan) of
           Inl err \<Rightarrow> Inl UpdateFailed
         | Inr raw \<Rightarrow>
            (let today = date_of clock_today
             in case normalize_times cfg clock_norm raw of
                  Inl e \<Rightarrow> Inl e
                | Inr ps \<Rightarrow>
                    (let data = PrayerData ps today
                     in case prev of
                          None \<Rightarrow> Inr data
                        | Some old \<Rightarrow>
                            if date old = today
                            then Inr (data\<lparr>played_today := played_today old\<rparr>)
                            else Inr data)))"

subsection \<open>Next-prayer selection (\<^verbatim>\<open>_schedule_next_prayer\<close>, lines 614 to 636)\<close>

definition this_offset :: "config \<Rightarrow> prayer \<Rightarrow> int" where
  "this_offset cfg p =
     (if name p = ''Sunrise'' then get_or (offset_minutes cfg) DEFAULT_OFFSET_MINUTES else 0)"

fun find_next_prayer :: "config \<Rightarrow> string set \<Rightarrow> datetime \<Rightarrow> prayer list \<Rightarrow> prayer option" where
  "find_next_prayer cfg played now [] = None"
| "find_next_prayer cfg played now (p # ps) =
     (if \<not> enabled p then find_next_prayer cfg played now ps
      else if name p \<in> played then find_next_prayer cfg played now ps
      else if time p - timedelta_minutes (this_offset cfg p) > now then Some p
      else find_next_prayer cfg played now ps)"

subsection \<open>The Next Prayer sensor (\<^verbatim>\<open>sensor.py\<close>)\<close>

fun sensor_loop :: "datetime \<Rightarrow> prayer list \<Rightarrow> prayer option" where
  "sensor_loop now [] = None"
| "sensor_loop now (p # ps) =
     (if \<not> enabled p then sensor_loop now ps
      else if time p > now then Some p
      else sensor_loop now ps)"

text \<open>\<^verbatim>\<open>NextPrayerSensor._get_next_prayer\<close>, on \<^verbatim>\<open>coordinator.data\<close>\<close>

definition get_next_prayer :: "prayer_data option \<Rightarrow> datetime \<Rightarrow> prayer option" where
  "get_next_prayer data now =
     (case data of None \<Rightarrow> None | Some d \<Rightarrow> sensor_loop now (prayers d))"

text \<open>\<^verbatim>\<open>NextPrayerSensor.native_value\<close>\<close>

definition next_prayer_native_value :: "prayer_data option \<Rightarrow> datetime \<Rightarrow> string option" where
  "next_prayer_native_value data now = map_option name (get_next_prayer data now)"

subsection \<open>The host: store, one-shot timers, service calls\<close>

text \<open>
  The callbacks the integration registers with \<^verbatim>\<open>async_track_point_in_time\<close>:
  \<^verbatim>\<open>_prayer_callback\<close> (closed over the name of the selected prayer),
  \<^verbatim>\<open>_midnight_refresh\<close> and \<^verbatim>\<open>_reset_playing\<close> (closed over the prayer name).
\<close>

datatype callback = PrayerCallback string | MidnightRefresh | ResetPlaying string

datatype service_call =
    PlayMedia string string
  | NotifyScreenOn string
  | NotifyActivity string string

text \<open>\<^verbatim>\<open>hass.data[DOMAIN][entry.entry_id]\<close>; \<open>coordinator_data\<close> is \<^verbatim>\<open>store["coordinator"].data\<close>.\<close>

record store =
  coordinator_data :: "prayer_data option"
  is_playing :: bool
  currently_playing :: "string option"
  is_downloading :: bool
  audio_file :: "string option"
  full_audio_file :: "string option"
  short_audio_file :: "string option"
  fajr_audio_file :: "string option"
  unsub_timer :: "nat option"
  playback_reset_unsub :: "nat option"

text \<open>
  The host state: the store of this entry (\<open>None\<close> once the entry is unloaded), the
  outstanding one-shot timers as (handle, due time, callback), the next fresh handle, and
  the service calls issued so far.
\<close>

record hass =
  entry_store :: "store option"
  timers :: "(nat \<times> datetime \<times> callback) list"
  next_handle :: nat
  calls :: "service_call list"

text \<open>
  The external collaborators of \<^verbatim>\<open>_play_azan\<close>: \<^verbatim>\<open>os.path.exists\<close>, the three ways
  \<^verbatim>\<open>get_url\<close> is called (\<open>None\<close> when it raises), whether a service call raises, and
  \<^verbatim>\<open>dt_util.now()\<close>.
\<close>

record env =
  path_exists :: "string \<Rightarrow> bool"
  get_url_internal :: "string option"
  get_url_external :: "string option"
  get_url_default :: "string option"
  call_raises :: "service_call \<Rightarrow> bool"
  clock :: datetime

text \<open>\<^verbatim>\<open>async_track_point_in_time(hass, cb, t)\<close>: registers the timer, returns its handle.\<close>

definition async_track_point_in_time :: "callback \<Rightarrow> datetime \<Rightarrow> hass \<Rightarrow> nat \<times> hass" where
  "async_track_point_in_time cb t h =
     (next_handle h,
      h\<lparr>timers := timers h @ [(next_handle h, t, cb)], next_handle := Suc (next_handle h)\<rparr>)"

text \<open>Calling a cancellation handle: a timer that has fired or was cancelled is not there.\<close>

definition unsub :: "nat \<Rightarrow> hass \<Rightarrow> hass" where
  "unsub u h = h\<lparr>timers := filter (\<lambda>e. fst e \<noteq> u) (timers h)\<rparr>"

definition set_store :: "store \<Rightarrow> hass \<Rightarrow> hass" where
  "set_store st h = h\<lparr>entry_store := Some st\<rparr>"

subsection \<open>\<^verbatim>\<open>_schedule_next_prayer\<close>\<close>

text \<open>
  \<^verbatim>\<open>(now + timedelta(days=1)).replace(hour=0, minute=1, second=0, microsecond=0)\<close>
\<close>

definition tomorrow_0001 :: "datetime \<Rightarrow> datetime" where
  "tomorrow_0001 now = date_of (now + timedelta_days 1) * us_per_day + us_per_minute"

definition schedule_next_prayer :: "datetime \<Rightarrow> config \<Rightarrow> hass \<Rightarrow> hass" where
  "schedule_next_prayer now cfg h =
     (case entry_store h of
        None \<Rightarrow> h
      | Some st \<Rightarrow>
          (let (st1, h1) = (case unsub_timer st of
                              Some u \<Rightarrow> (st\<lparr>unsub_timer := None\<rparr>,
                                         set_store (st\<lparr>unsub_timer := None\<rparr>) (unsub u h))
                            | None \<Rightarrow> (st, h))
           in case coordinator_data st1 of
                None \<Rightarrow> h1
              | Some d \<Rightarrow>
                 (case find_next_prayer cfg (played_today d) now (prayers d) of
                    None \<Rightarrow>
                      (let (u, h2) = async_track_point_in_time MidnightRefresh (tomorrow_0001 now) h1
                       in set_store (st1\<lparr>unsub_timer := Some u\<rparr>) h2)
                  | Some next_prayer \<Rightarrow>
                      (let target_time = time next_prayer
                                           - timedelta_minutes (this_offset cfg next_prayer);
                           (u, h2) = async_track_point_in_time
                                       (PrayerCallback (name next_prayer)) target_time h1
                       in set_store (st1\<lparr>unsub_timer := Some u\<rparr>) h2))))"

subsection \<open>\<^verbatim>\<open>_play_azan\<close>\<close>

text \<open>Truthiness of an optional string: \<^verbatim>\<open>None\<close> and \<^verbatim>\<open>""\<close> are false.\<close>

definition truthy :: "string option \<Rightarrow> bool" where
  "truthy v = (case v of None \<Rightarrow> False | Some s \<Rightarrow> s \<noteq> [])"

definition already_played :: "store \<Rightarrow> string \<Rightarrow> bool" where
  "already_played st prayer_name =
     (case coordinator_data st of None \<Rightarrow> False | Some d \<Rightarrow> prayer_name \<in> played_today d)"

definition selection_key_map :: "string \<rightharpoonup> string" where
  "selection_key_map = map_of
     [(''Fajr'', ''sound_fajr''), (''Sunrise'', ''sound_sunrise''), (''Dhuhr'', ''sound_dhuhr''),
      (''Asr'', ''sound_asr''), (''Maghrib'', ''sound_maghrib''), (''Isha'', ''sound_isha'')]"

definition sound_selection :: "config \<Rightarrow> string \<Rightarrow> string" where
  "sound_selection cfg prayer_name =
     (if prayer_name = ''Test'' then SOUND_OPTION_SHORT
      else (case selection_key_map prayer_name of
              Some sel_key \<Rightarrow> get_or (sounds cfg sel_key) SOUND_OPTION_FULL
            | None \<Rightarrow> SOUND_OPTION_FULL))"

definition chosen_audio :: "store \<Rightarrow> string \<Rightarrow> string \<Rightarrow> string option" where
  "chosen_audio st prayer_name selection =
     (if selection = SOUND_OPTION_CUSTOM then
        (if prayer_name = ''Fajr'' then fajr_audio_file st else audio_file st)
      else if selection = SOUND_OPTION_FULL then
        (if prayer_name = ''Fajr''
         then (if truthy (fajr_audio_file st) then fajr_audio_file st else full_audio_file st)
         else full_audio_file st)
      else if selection = SOUND_OPTION_SHORT then short_audio_file st
      else None)"

text \<open>The negation of \<^verbatim>\<open>not audio_file or not os.path.exists(audio_file)\<close>\<close>

definition usable :: "env \<Rightarrow> string option \<Rightarrow> bool" where
  "usable e f = (case f of None \<Rightarrow> False | Some s \<Rightarrow> s \<noteq> [] \<and> path_exists e s)"

text \<open>Lines 380 to 408: the audio file to play, \<open>None\<close> when none is available.\<close>

definition resolve_audio :: "env \<Rightarrow> config \<Rightarrow> store \<Rightarrow> string \<Rightarrow> string option" where
  "resolve_audio e cfg st prayer_name =
     (let f = chosen_audio st prayer_name (sound_selection cfg prayer_name);
          f1 = (if \<not> usable e f
                then (if prayer_name = ''Fajr'' \<and> truthy (fajr_audio_file st)
                      then fajr_audio_file st else audio_file st)
                else f)
      in if \<not> usable e f1 then None else f1)"

text \<open>\<^verbatim>\<open>os.path.basename\<close> and \<^verbatim>\<open>s.rstrip("/")\<close>\<close>

definition basename :: "string \<Rightarrow> string" where
  "basename p = rev (takeWhile (\<lambda>c. c \<noteq> CHR ''/'') (rev p))"

definition rstrip_slash :: "string \<Rightarrow> string" where
  "rstrip_slash s = rev (dropWhile (\<lambda>c. c = CHR ''/'') (rev s))"

text \<open>Lines 413 to 427: \<open>None\<close> when the last \<^verbatim>\<open>get_url(hass)\<close> raises too.\<close>

definition base_url :: "env \<Rightarrow> config \<Rightarrow> string \<Rightarrow> string option" where
  "base_url e cfg mode =
     (if mode = PLAYBACK_MEDIA_PLAYER then
        (case get_url_internal e of Some u \<Rightarrow> Some u | None \<Rightarrow> get_url_default e)
      else
        (let b = rstrip_slash (get_or (external_url cfg) [])
         in if b \<noteq> [] then Some b
            else (case get_url_external e of Some u \<Rightarrow> Some u | None \<Rightarrow> get_url_default e)))"

text \<open>
  The \<^verbatim>\<open>try\<close> block, lines 442 to 498. \<open>NotConfigured\<close> is one of its two \<^verbatim>\<open>return\<close>s,
  \<open>Raised\<close> a service call that raises. The second component lists the calls issued.
\<close>

datatype dispatch_result = NotConfigured | Raised | Dispatched

fun call_all :: "env \<Rightarrow> service_call list \<Rightarrow> dispatch_result \<times> service_call list" where
  "call_all e [] = (Dispatched, [])"
| "call_all e (c # cs) =
     (if call_raises e c then (Raised, [c])
      else (case call_all e cs of (r, issued) \<Rightarrow> (r, c # issued)))"

definition dispatch :: "env \<Rightarrow> config \<Rightarrow> string \<Rightarrow> string \<Rightarrow> dispatch_result \<times> service_call list" where
  "dispatch e cfg mode media_url =
     (if mode = PLAYBACK_MEDIA_PLAYER then
        (case media_player cfg of
           None \<Rightarrow> (NotConfigured, [])
         | Some (Single target) \<Rightarrow>
             if target = [] then (NotConfigured, [])
             else call_all e [PlayMedia target media_url]
         | Some (Many targets) \<Rightarrow>
             if targets = [] then (NotConfigured, [])
             else call_all e (map (\<lambda>target. PlayMedia target media_url) targets))
      else
        (case notify_service cfg of
           None \<Rightarrow> (NotConfigured, [])
         | Some svc \<Rightarrow>
             if svc = [] then (NotConfigured, [])
             else call_all e [NotifyScreenOn svc, NotifyActivity svc media_url]))"

definition upd_store :: "(store \<Rightarrow> store) \<Rightarrow> hass \<Rightarrow> hass" where
  "upd_store f h = h\<lparr>entry_store := map_option f (entry_store h)\<rparr>"

text \<open>Lines 509 to 513\<close>

definition mark_played :: "string \<Rightarrow> store \<Rightarrow> store" where
  "mark_played prayer_name st =
     (if prayer_name \<noteq> ''Test'' then
        (case coordinator_data st of
           None \<Rightarrow> st
         | Some d \<Rightarrow>
             st\<lparr>coordinator_data := Some (d\<lparr>played_today := insert prayer_name (played_today d)\<rparr>)\<rparr>)
      else st)"

text \<open>Lines 515 to 533: replace the playback-reset timer by one due in five minutes.\<close>

definition arm_reset :: "env \<Rightarrow> string \<Rightarrow> hass \<Rightarrow> hass" where
  "arm_reset e prayer_name h =
     (case entry_store h of
        None \<Rightarrow> h
      | Some st \<Rightarrow>
          (let h1 = (case playback_reset_unsub st of Some r \<Rightarrow> unsub r h | None \<Rightarrow> h);
               (r, h2) = async_track_point_in_time (ResetPlaying prayer_name)
                           (clock e + timedelta_minutes 5) h1
           in set_store (st\<lparr>playback_reset_unsub := Some r\<rparr>) h2))"

definition play_azan :: "env \<Rightarrow> config \<Rightarrow> string \<Rightarrow> hass \<Rightarrow> error + hass" where
  "play_azan e cfg prayer_name h =
     (case entry_store h of
        None \<Rightarrow> Inr h
      | Some st \<Rightarrow>
          if prayer_name \<noteq> ''Test'' \<and> already_played st prayer_name then Inr h
          else
           (let mode = get_or (playback_mode cfg) PLAYBACK_MEDIA_PLAYER
            in case resolve_audio e cfg st prayer_name of
                 None \<Rightarrow> Inr (schedule_next_prayer (clock e) cfg h)
               | Some file \<Rightarrow>
                  (case base_url e cfg mode of
                     None \<Rightarrow> Inl NoURLAvailableError
                   | Some base \<Rightarrow>
                      (let media_url = base @ ''/local/azan/'' @ basename file;
                           h1 = upd_store (\<lambda>s. s\<lparr>is_playing := True,
                                                  currently_playing := Some prayer_name\<rparr>) h
                       in case dispatch e cfg mode media_url of
                            (NotConfigured, issued) \<Rightarrow> Inr h1
                          | (Raised, issued) \<Rightarrow>
                              Inr (schedule_next_prayer (clock e) cfg
                                     (upd_store (\<lambda>s. s\<lparr>is_playing := False,
                                                        currently_playing := None\<rparr>)
                                        (h1\<lparr>calls := calls h1 @ issued\<rparr>)))
                          | (Dispatched, issued) \<Rightarrow>
                              Inr (schedule_next_prayer (clock e) cfg
                                     (arm_reset e prayer_name
                                        (upd_store (mark_played prayer_name)
                                           (h1\<lparr>calls := calls h1 @ issued\<rparr>))))))))"

subsection \<open>\<^verbatim>\<open>_prayer_callback\<close> and the firing of a prayer timer\<close>

text \<open>
  The callback checks the played-set and otherwise starts \<^verbatim>\<open>_play_azan\<close> as a task; the
  host runs callbacks and tasks one after the other, so the task is run here at once.
\<close>

definition prayer_callback :: "env \<Rightarrow> config \<Rightarrow> string \<Rightarrow> hass \<Rightarrow> error + hass" where
  "prayer_callback e cfg prayer_name h =
     (case entry_store h of
        None \<Rightarrow> Inr h
      | Some st \<Rightarrow>
          if already_played st prayer_name
          then Inr (schedule_next_prayer (clock e) cfg h)
          else play_azan e cfg prayer_name h)"

text \<open>
  The host fires the one-shot timer with handle \<open>u\<close>, registered for the prayer
  \<open>prayer_name\<close>: the timer leaves the outstanding ones and its callback runs.
\<close>

definition fire_prayer_timer :: "env \<Rightarrow> config \<Rightarrow> nat \<Rightarrow> string \<Rightarrow> hass \<Rightarrow> error + hass" where
  "fire_prayer_timer e cfg u prayer_name h = prayer_callback e cfg prayer_name (unsub u h)"

text \<open>The timers of the scheduling loop, as opposed to the playback-reset timer.\<close>

fun is_scheduler_timer :: "nat \<times> datetime \<times> callback \<Rightarrow> bool" where
  "is_scheduler_timer (u, t, PrayerCallback nm) = True"
| "is_scheduler_timer (u, t, MidnightRefresh) = True"
| "is_scheduler_timer (u, t, ResetPlaying nm) = False"

subsection \<open>The Status sensor (\<^verbatim>\<open>AzanStatusSensor.native_value\<close>)\<close>

definition status_native_value :: "hass \<Rightarrow> string" where
  "status_native_value h =
     (case entry_store h of
        None \<Rightarrow> ''idle''
      | Some st \<Rightarrow>
          if is_downloading st then ''downloading''
          else if is_playing st then ''playing''
          else ''idle'')"

subsection \<open>Sample inputs\<close>

text \<open>A configuration dictionary with no key set: every \<^verbatim>\<open>get\<close> returns its default.\<close>

definition empty_config :: config where
  "empty_config =
     \<lparr>prayer_source = None, prayer_toggles = Map.empty, offset_minutes = None,
      playback_mode = None, media_player = None, notify_service = None,
      external_url = None, sounds = Map.empty\<rparr>"

text \<open>The store as \<^verbatim>\<open>async_setup_entry\<close> creates it, with the data of the coordinator.\<close>

definition initial_store :: "prayer_data option \<Rightarrow> store" where
  "initial_store data =
     \<lparr>coordinator_data = data, is_playing = False, currently_playing = None,
      is_downloading = False, audio_file = None, full_audio_file = None,
      short_audio_file = None, fajr_audio_file = None, unsub_timer = None,
      playback_reset_unsub = None\<rparr>"

text \<open>A prayer at \<open>h:m\<close> of day 0.\<close>

definition prayer_at :: "string \<Rightarrow> int \<Rightarrow> int \<Rightarrow> bool \<Rightarrow> prayer" where
  "prayer_at nm h m en =
     \<lparr>name = nm, time = (h * 60 + m) * us_per_minute,
      time_str = fmt_02d h @ '':'' @ fmt_02d m, enabled = en\<rparr>"

text \<open>
  The schedule of the example in the specification: Fajr 05:00 enabled, Sunrise 06:30
  disabled, Dhuhr 12:00 enabled, on day 0.
\<close>

definition sample_data :: "string set \<Rightarrow> prayer_data" where
  "sample_data played =
     \<lparr>prayers = [prayer_at ''Fajr'' 5 0 True, prayer_at ''Sunrise'' 6 30 False,
                 prayer_at ''Dhuhr'' 12 0 True],
      date = 0, played_today = played\<rparr>"

text \<open>
  A host in which the full azan file is ready and the scheduler has armed timer 0 for
  Fajr at 05:00.
\<close>

definition sample_hass :: "string set \<Rightarrow> hass" where
  "sample_hass played =
     \<lparr>entry_store = Some ((initial_store (Some (sample_data played)))
                            \<lparr>full_audio_file := Some ''/config/www/azan/azan_full.mp3'',
                             unsub_timer := Some 0\<rparr>),
      timers = [(0, 5 * 60 * us_per_minute, PrayerCallback ''Fajr'')],
      next_handle = 1, calls = []\<rparr>"

text \<open>The same host before the scheduler has armed anything.\<close>

definition sample_hass0 :: "string set \<Rightarrow> hass" where
  "sample_hass0 played =
     \<lparr>entry_store = Some ((initial_store (Some (sample_data played)))
                            \<lparr>full_audio_file := Some ''/config/www/azan/azan_full.mp3''\<rparr>),
      timers = [], next_handle = 0, calls = []\<rparr>"

text \<open>
  Collaborators at 05:00 of day 0: every file exists, the internal URL resolves, and
  every service call raises or none does.
\<close>

definition sample_env :: "bool \<Rightarrow> env" where
  "sample_env raises =
     \<lparr>path_exists = (\<lambda>p. True), get_url_internal = Some ''http://homeassistant.local:8123'',
      get_url_external = None, get_url_default = None,
      call_raises = (\<lambda>c. raises), clock = 5 * 60 * us_per_minute\<rparr>"

section \<open>Properties\<close>

lemmas time_defs =
  timedelta_minutes_def timedelta_days_def us_per_minute_def us_per_day_def date_of_def

lemmas parse_defs =
  parse_time_def clean_time_def strip_def py_isspace_def int_isspace_def py_int_def
  is_digit_def digits_value_def digit_val_def

lemmas build_defs =
  normalize_times_def normalize_entry_def order_key_def PRAYER_ORDER_def replace_hm_def
  fits_c_int_def fmt_02d_def dec.simps digit_char_def enabled_map_def get_or_def

lemmas sample_defs =
  sample_hass_def sample_hass0_def sample_env_def sample_data_def initial_store_def empty_config_def
  prayer_at_def

lemmas play_defs =
  resolve_audio_def chosen_audio_def sound_selection_def selection_key_map_def usable_def
  truthy_def base_url_def dispatch_def basename_def rstrip_slash_def get_or_def
  PLAYBACK_MEDIA_PLAYER_def SOUND_OPTION_FULL_def SOUND_OPTION_SHORT_def
  SOUND_OPTION_CUSTOM_def

subsection \<open>Parsing a time\<close>

lemma lt10_cases: "d < 10 \<Longrightarrow> d \<in> {0, 1, 2, 3, 4, 5, 6, 7, 8, 9::nat}"
  by auto

lemma digit_char_props:
  assumes "d < 10"
  shows "is_digit (digit_char d)" "digit_val (digit_char d) = d"
    "\<not> py_isspace (digit_char d)" "\<not> int_isspace (digit_char d)"
    "digit_char d \<noteq> CHR '':''" "digit_char d \<noteq> CHR ''(''" "digit_char d \<noteq> CHR '' ''"
    "digit_char d \<noteq> CHR ''-''" "digit_char d \<noteq> CHR ''+''" "digit_char d \<noteq> CHR ''_''"
  using lt10_cases [OF assms]
  by (auto simp: digit_char_def is_digit_def digit_val_def py_isspace_def int_isspace_def)

lemma fmt_02d_two:
  assumes "0 \<le> i" "i < 100"
  shows "fmt_02d i = [digit_char (nat i div 10), digit_char (nat i mod 10)]"
proof (cases "i < 10")
  case True
  then have "nat i div 10 = 0" "nat i mod 10 = nat i" "nat i < 10" using assms by auto
  moreover have "digit_char 0 = CHR ''0''" by (simp add: digit_char_def)
  ultimately show ?thesis using True assms by (simp add: fmt_02d_def dec.simps)
next
  case False
  then have "\<not> nat i < 10" "nat i div 10 < 10" using assms by auto
  then show ?thesis using False assms
    by (simp add: fmt_02d_def dec.simps [of "nat i"] dec.simps [of "nat i div 10"])
qed

lemma py_int_two_digits:
  assumes "a < 10" "b < 10"
  shows "py_int [digit_char a, digit_char b] = Some (int (a * 10 + b))"
  using digit_char_props [OF assms(1)] digit_char_props [OF assms(2)]
  by (simp add: py_int_def digits_value_def)

lemma py_int_fmt_02d:
  assumes "0 \<le> i" "i < 100"
  shows "py_int (fmt_02d i) = Some i"
proof -
  have "nat i div 10 < 10" "nat i mod 10 < 10" using assms by auto
  from py_int_two_digits [OF this] show ?thesis
    using assms by (simp add: fmt_02d_two)
qed

lemma clean_time_hhmm:
  assumes "a < 10" "b < 10" "c < 10" "d < 10"
  shows "clean_time [digit_char a, digit_char b, CHR '':'', digit_char c, digit_char d]
       = [digit_char a, digit_char b, CHR '':'', digit_char c, digit_char d]"
  using digit_char_props [OF assms(1)] digit_char_props [OF assms(2)]
        digit_char_props [OF assms(3)] digit_char_props [OF assms(4)]
  by (simp add: clean_time_def strip_def)

lemma split_hhmm:
  assumes "a < 10" "b < 10" "c < 10" "d < 10"
  shows "py_split (CHR '':'') [digit_char a, digit_char b, CHR '':'', digit_char c, digit_char d]
       = [[digit_char a, digit_char b], [digit_char c, digit_char d]]"
  using digit_char_props [OF assms(1)] digit_char_props [OF assms(2)]
        digit_char_props [OF assms(3)] digit_char_props [OF assms(4)]
  by simp

lemma parse_time_hhmm:
  assumes "0 \<le> h" "h < 100" "0 \<le> m" "m < 100"
  shows "parse_time nm (fmt_02d h @ '':'' @ fmt_02d m) =
     Inr (Some (if nm \<in> {''Asr'', ''Maghrib'', ''Isha''} \<and> h < 10 then h + 12 else h, m))"
proof -
  have b: "nat h div 10 < 10" "nat h mod 10 < 10" "nat m div 10 < 10" "nat m mod 10 < 10"
    using assms by auto
  have s: "fmt_02d h @ '':'' @ fmt_02d m =
      [digit_char (nat h div 10), digit_char (nat h mod 10), CHR '':'',
       digit_char (nat m div 10), digit_char (nat m mod 10)]"
    using assms by (simp add: fmt_02d_two)
  have ih: "py_int [digit_char (nat h div 10), digit_char (nat h mod 10)] = Some h"
    using py_int_fmt_02d [OF assms(1,2)] assms by (simp add: fmt_02d_two)
  have im: "py_int [digit_char (nat m div 10), digit_char (nat m mod 10)] = Some m"
    using py_int_fmt_02d [OF assms(3,4)] assms by (simp add: fmt_02d_two)
  show ?thesis
    unfolding s parse_time_def clean_time_hhmm [OF b] split_hhmm [OF b]
    using ih im by simp
qed

lemma normalize_times_single:
  assumes "nm \<in> set PRAYER_ORDER"
  shows "normalize_times cfg now [(nm, s)] =
     (case normalize_entry cfg now nm s of
        Inl e \<Rightarrow> Inl e
      | Inr r \<Rightarrow> Inr (case r of None \<Rightarrow> [] | Some p \<Rightarrow> [p]))"
  using assms by (simp add: normalize_times_def split: sum.splits)

lemma fmt_02d_inj:
  assumes "0 \<le> i" "i < 100" "0 \<le> j" "j < 100" "fmt_02d i = fmt_02d j"
  shows "i = j"
proof -
  have "Some i = py_int (fmt_02d i)" using py_int_fmt_02d [OF assms(1,2)] by simp
  also have "\<dots> = py_int (fmt_02d j)" by (simp only: assms(5))
  also have "\<dots> = Some j" by (rule py_int_fmt_02d [OF assms(3,4)])
  finally show ?thesis by simp
qed

lemma refresh_single:
  assumes "nm \<in> set PRAYER_ORDER"
    and "parse_time nm s = Inr (Some (hh, mm))"
    and "0 \<le> hh" "hh \<le> 23" "0 \<le> mm" "mm \<le> 59"
    and "(if get_or (prayer_source cfg) SOURCE_QATAR_MOI = SOURCE_QATAR_MOI
          then fetch_qatar_moi else fetch_aladhan) = Inr [(nm, s)]"
  shows "map_sum id (\<lambda>d. map (\<lambda>p. (name p, time_str p, time p)) (prayers d))
           (async_update_data cfg fetch_qatar_moi fetch_aladhan clock_today clock_norm prev)
       = Inr [(nm, fmt_02d hh @ '':'' @ fmt_02d mm,
               date_of clock_norm * us_per_day + (hh * 60 + mm) * us_per_minute)]"
  using assms
  by (simp add: async_update_data_def normalize_times_single normalize_entry_def
        replace_hm_def fits_c_int_def PrayerData_def Let_def split: option.splits)

text \<open>
  C3, as the code has it. Take a string \<^verbatim>\<open>HH:MM\<close> with \<open>0 \<le> HH \<le> 23\<close> and
  \<open>0 \<le> MM \<le> 59\<close> and a canonical prayer name. Where the afternoon rule does not
  apply (Fajr, Sunrise and Dhuhr always; Asr, Maghrib and Isha when \<open>HH \<ge> 10\<close>) the
  string parses to (HH, MM) and a refresh from either provider renders it back as the
  same string, at HH:MM of the day. Where the rule applies (Asr, Maghrib, Isha with
  \<open>HH < 10\<close>) and the source is the 12-hour provider (Qatar MOI), the refresh builds the
  prayer at (HH + 12, MM) and renders a different string.
\<close>

theorem C3_time_round_trip:
  assumes "0 \<le> h" "h \<le> 23" "0 \<le> m" "m \<le> 59"
    and "nm \<in> set PRAYER_ORDER"
  shows "((nm \<in> {''Asr'', ''Maghrib'', ''Isha''} \<longrightarrow> 10 \<le> h) \<longrightarrow>
            parse_time nm (fmt_02d h @ '':'' @ fmt_02d m) = Inr (Some (h, m))
          \<and> normalize_entry cfg now nm (fmt_02d h @ '':'' @ fmt_02d m) =
               Inr (Some \<lparr>name = nm,
                          time = date_of now * us_per_day + (h * 60 + m) * us_per_minute,
                          time_str = fmt_02d h @ '':'' @ fmt_02d m,
                          enabled = get_or (enabled_map cfg nm) False\<rparr>)
          \<and> map_sum id (\<lambda>d. map (\<lambda>p. (name p, time_str p, time p)) (prayers d))
               (async_update_data cfg (Inr [(nm, fmt_02d h @ '':'' @ fmt_02d m)])
                  (Inr [(nm, fmt_02d h @ '':'' @ fmt_02d m)]) clock_today now prev)
             = Inr [(nm, fmt_02d h @ '':'' @ fmt_02d m,
                     date_of now * us_per_day + (h * 60 + m) * us_per_minute)])
       \<and> (nm \<in> {''Asr'', ''Maghrib'', ''Isha''} \<and> h < 10
            \<and> get_or (prayer_source cfg) SOURCE_QATAR_MOI = SOURCE_QATAR_MOI \<longrightarrow>
            map_sum id (\<lambda>d. map (\<lambda>p. (name p, time_str p, time p)) (prayers d))
               (async_update_data cfg (Inr [(nm, fmt_02d h @ '':'' @ fmt_02d m)])
                  fetch_aladhan clock_today now prev)
             = Inr [(nm, fmt_02d (h + 12) @ '':'' @ fmt_02d m,
                     date_of now * us_per_day + ((h + 12) * 60 + m) * us_per_minute)]
          \<and> fmt_02d (h + 12) @ '':'' @ fmt_02d m \<noteq> fmt_02d h @ '':'' @ fmt_02d m)"
proof (intro conjI impI)
  assume rule: "nm \<in> {''Asr'', ''Maghrib'', ''Isha''} \<longrightarrow> 10 \<le> h"
  show p: "parse_time nm (fmt_02d h @ '':'' @ fmt_02d m) = Inr (Some (h, m))"
    using parse_time_hhmm [of h m nm] assms rule by auto
  then show "normalize_entry cfg now nm (fmt_02d h @ '':'' @ fmt_02d m) =
               Inr (Some \<lparr>name = nm,
                          time = date_of now * us_per_day + (h * 60 + m) * us_per_minute,
                          time_str = fmt_02d h @ '':'' @ fmt_02d m,
                          enabled = get_or (enabled_map cfg nm) False\<rparr>)"
    using assms by (simp add: normalize_entry_def replace_hm_def fits_c_int_def)
  show "map_sum id (\<lambda>d. map (\<lambda>p. (name p, time_str p, time p)) (prayers d))
               (async_update_data cfg (Inr [(nm, fmt_02d h @ '':'' @ fmt_02d m)])
                  (Inr [(nm, fmt_02d h @ '':'' @ fmt_02d m)]) clock_today now prev)
             = Inr [(nm, fmt_02d h @ '':'' @ fmt_02d m,
                     date_of now * us_per_day + (h * 60 + m) * us_per_minute)]"
    by (rule refresh_single [OF assms(5) p assms(1-4)]) simp
next
  assume pm: "nm \<in> {''Asr'', ''Maghrib'', ''Isha''} \<and> h < 10
            \<and> get_or (prayer_source cfg) SOURCE_QATAR_MOI = SOURCE_QATAR_MOI"
  have p: "parse_time nm (fmt_02d h @ '':'' @ fmt_02d m) = Inr (Some (h + 12, m))"
    using parse_time_hhmm [of h m nm] assms pm by auto
  have b: "0 \<le> h + 12" "h + 12 \<le> 23" using assms pm by auto
  show "map_sum id (\<lambda>d. map (\<lambda>p. (name p, time_str p, time p)) (prayers d))
               (async_update_data cfg (Inr [(nm, fmt_02d h @ '':'' @ fmt_02d m)])
                  fetch_aladhan clock_today now prev)
             = Inr [(nm, fmt_02d (h + 12) @ '':'' @ fmt_02d m,
                     date_of now * us_per_day + ((h + 12) * 60 + m) * us_per_minute)]"
    by (rule refresh_single [OF assms(5) p b assms(3,4)]) (use pm in simp)
  have "fmt_02d (h + 12) \<noteq> fmt_02d h"
    using fmt_02d_inj [of "h + 12" h] assms pm by auto
  moreover have "length (fmt_02d (h + 12)) = 2" "length (fmt_02d h) = 2"
    using assms pm by (simp_all add: fmt_02d_two)
  ultimately show "fmt_02d (h + 12) @ '':'' @ fmt_02d m \<noteq> fmt_02d h @ '':'' @ fmt_02d m"
    by simp
qed

theorem C3_time_round_trip_witness:
  "map_sum id (\<lambda>d. map (\<lambda>p. (name p, time_str p)) (prayers d))
      (async_update_data (empty_config\<lparr>prayer_source := Some SOURCE_ALADHAN\<rparr>)
         (Inl UpdateFailed) (Inr [(''Isha'', ''19:45'')]) 0 0 None)
     = Inr [(''Isha'', ''19:45'')]
   \<and> parse_time ''Fajr'' ''03:00'' = Inr (Some (3, 0))
   \<and> map_sum id (\<lambda>d. map (\<lambda>p. (name p, time_str p)) (prayers d))
      (async_update_data empty_config (Inr [(''Asr'', ''03:30'')]) (Inl UpdateFailed) 0 0 None)
     = Inr [(''Asr'', ''15:30'')]"
  using C3_time_round_trip [where h = 19 and m = 45 and nm = "''Isha''" and now = 0
          and cfg = "empty_config\<lparr>prayer_source := Some SOURCE_ALADHAN\<rparr>"
          and clock_today = 0 and prev = None]
        C3_time_round_trip [where h = 3 and m = 0 and nm = "''Fajr''" and now = 0
          and cfg = empty_config and clock_today = 0 and prev = None]
        C3_time_round_trip [where h = 3 and m = 30 and nm = "''Asr''" and now = 0
          and cfg = empty_config and clock_today = 0 and prev = None
          and fetch_aladhan = "Inl UpdateFailed"]
  by (simp add: PRAYER_ORDER_def fmt_02d_def dec.simps digit_char_def empty_config_def get_or_def
        SOURCE_QATAR_MOI_def SOURCE_ALADHAN_def async_update_data_def
        parse_defs build_defs time_defs PrayerData_def)

text \<open>
  The round trip as stated for every canonical name fails under the 12-hour provider:
  \<^verbatim>\<open>03:00\<close> for Isha parses to (15, 0) and is rendered as \<^verbatim>\<open>15:00\<close>.
\<close>

theorem C3_time_round_trip_counterexample:
  "fmt_02d 3 @ '':'' @ fmt_02d 0 = ''03:00''
   \<and> parse_time ''Isha'' ''03:00'' = Inr (Some (15, 0))
   \<and> map_sum id (\<lambda>d. map (\<lambda>p. (name p, time_str p)) (prayers d))
        (async_update_data (empty_config\<lparr>prayer_source := Some SOURCE_QATAR_MOI\<rparr>)
           (Inr [(''Isha'', ''03:00'')]) (Inl UpdateFailed) 0 0 None)
       = Inr [(''Isha'', ''15:00'')]
   \<and> ''15:00'' \<noteq> ''03:00''"
  by (simp add: async_update_data_def PrayerData_def SOURCE_QATAR_MOI_def
        parse_defs build_defs time_defs empty_config_def)

text \<open>
  C2. The afternoon rule maps \<^verbatim>\<open>03:00\<close> to hour 15 for Isha and leaves hour 3 for
  Fajr. The rule does not look at the source: a refresh from the AlAdhan provider, whose
  times are in 24-hour format, turns an Isha at \<^verbatim>\<open>00:45\<close> into \<^verbatim>\<open>12:45\<close>.
\<close>

theorem C2_pm_rule_ignores_source:
  "parse_time ''Isha'' ''03:00'' = Inr (Some (15, 0))
   \<and> parse_time ''Fajr'' ''03:00'' = Inr (Some (3, 0))
   \<and> map_sum id (\<lambda>d. map (\<lambda>p. (name p, time_str p)) (prayers d))
        (async_update_data (empty_config\<lparr>prayer_source := Some SOURCE_ALADHAN\<rparr>)
           (Inl UpdateFailed) (Inr [(''Isha'', ''00:45'')]) 0 0 None)
       = Inr [(''Isha'', ''12:45'')]"
  by (simp add: async_update_data_def PrayerData_def SOURCE_ALADHAN_def SOURCE_QATAR_MOI_def
        parse_defs build_defs time_defs empty_config_def)

subsection \<open>Building the schedule\<close>

lemma normalize_entry_name:
  "normalize_entry cfg now nm s = Inr (Some p) \<Longrightarrow> name p = nm"
  by (auto simp: normalize_entry_def split: sum.splits option.splits prod.splits)

lemma normalize_loop_filter:
  "normalize_loop cfg now (filter (\<lambda>x. fst x \<in> set PRAYER_ORDER) es) = normalize_loop cfg now es"
  by (induction es) (auto split: sum.splits)

lemma normalize_loop_names:
  "normalize_loop cfg now es = Inr ps \<Longrightarrow> subseq (map name ps) (map fst es)"
proof (induction es arbitrary: ps)
  case Nil
  then show ?case by simp
next
  case (Cons x es)
  obtain nm s where x: "x = (nm, s)" by (cases x)
  show ?case
  proof (cases "nm \<in> set PRAYER_ORDER")
    case False
    with Cons x show ?thesis by auto
  next
    case True
    with Cons.prems x obtain r qs where
      r: "normalize_entry cfg now nm s = Inr r" and
      qs: "normalize_loop cfg now es = Inr qs" and
      ps: "ps = (case r of None \<Rightarrow> [] | Some p \<Rightarrow> [p]) @ qs"
      by (auto split: sum.splits)
    from Cons.IH [OF qs] have ih: "subseq (map name qs) (map fst es)" .
    show ?thesis
    proof (cases r)
      case None
      with ps ih x show ?thesis by auto
    next
      case (Some p)
      with r have "name p = nm" by (simp add: normalize_entry_name)
      with Some ps ih x show ?thesis by auto
    qed
  qed
qed

lemma index_of_nth:
  "index_of xs x = Some i \<Longrightarrow> i < length xs \<and> xs ! i = x"
  by (induction xs arbitrary: i) (auto split: if_splits)

lemma index_of_mem:
  "x \<in> set xs \<Longrightarrow> \<exists>i. index_of xs x = Some i"
  by (induction xs) auto

lemma order_key_nth:
  assumes "fst x \<in> set PRAYER_ORDER"
  shows "order_key x < length PRAYER_ORDER \<and> PRAYER_ORDER ! order_key x = fst x"
proof -
  from index_of_mem [OF assms] obtain i where "index_of PRAYER_ORDER (fst x) = Some i" ..
  with index_of_nth [OF this] assms show ?thesis by (simp add: order_key_def)
qed

lemma canonical_subseq:
  assumes known: "\<forall>x\<in>set es. fst x \<in> set PRAYER_ORDER"
    and dist: "distinct (map fst es)"
    and srt: "sorted (map order_key es)"
  shows "subseq (map fst es) PRAYER_ORDER"
proof -
  have nth: "map (\<lambda>x. PRAYER_ORDER ! order_key x) es = map fst es"
    using known order_key_nth by (intro map_cong) auto
  have inj: "inj_on order_key (set es)"
  proof (rule inj_onI)
    fix x y assume xy: "x \<in> set es" "y \<in> set es" "order_key x = order_key y"
    then have "fst x = fst y"
      using known order_key_nth by metis
    with dist xy show "x = y"
      by (auto simp: distinct_map dest: inj_onD)
  qed
  have "distinct es" using dist by (simp add: distinct_map)
  with inj have "distinct (map order_key es)" by (simp add: distinct_map)
  with srt have strict: "sorted_wrt (<) (map order_key es)" by (simp add: strict_sorted_iff)
  have sub: "set (map order_key es) \<subseteq> set [0..<length PRAYER_ORDER]"
    using known order_key_nth by auto
  have "subseq (map order_key es) [0..<length PRAYER_ORDER]"
    by (rule sorted_subset_imp_subseq [OF sub strict]) simp
  then have "subseq (map (\<lambda>i. PRAYER_ORDER ! i) (map order_key es))
                    (map (\<lambda>i. PRAYER_ORDER ! i) [0..<length PRAYER_ORDER])"
    by (rule subseq_map)
  then show ?thesis
    using nth by (simp add: map_nth comp_def)
qed

lemma order_key_inj_on:
  assumes "distinct (map fst es)"
  shows "inj_on order_key (set (filter (\<lambda>x. fst x \<in> set PRAYER_ORDER) es))"
proof (rule inj_onI)
  fix x y
  assume x: "x \<in> set (filter (\<lambda>x. fst x \<in> set PRAYER_ORDER) es)"
    and y: "y \<in> set (filter (\<lambda>x. fst x \<in> set PRAYER_ORDER) es)"
    and k: "order_key x = order_key y"
  from x y have "fst x \<in> set PRAYER_ORDER" "fst y \<in> set PRAYER_ORDER" by simp_all
  with k have "fst x = fst y" using order_key_nth by metis
  with assms x y show "x = y" by (auto simp: distinct_map dest: inj_onD)
qed

lemma subseq_distinct:
  "subseq xs ys \<Longrightarrow> distinct ys \<Longrightarrow> distinct xs"
proof (induction rule: list_emb.induct)
  case (list_emb_Cons2 x y xs ys)
  then have "x \<notin> set xs" using list_emb_set [of "(=)" xs ys x] by auto
  with list_emb_Cons2 show ?case by simp
qed simp_all

text \<open>
  C8. For a raw mapping (distinct keys) from which the schedule is built, the names of
  the built prayers are a subsequence of the canonical order: only canonical names, each
  at most once, in canonical order. The result is the same for every iteration order of
  the mapping, and the same when the entries with other names are removed.
\<close>

theorem C8_canonical_order:
  assumes dist: "distinct (map fst raw)"
    and built: "normalize_times cfg now raw = Inr ps"
  shows "subseq (map name ps) PRAYER_ORDER
       \<and> distinct (map name ps)
       \<and> (\<forall>raw'. mset raw' = mset raw \<longrightarrow> normalize_times cfg now raw' = Inr ps)
       \<and> normalize_times cfg now (filter (\<lambda>x. fst x \<in> set PRAYER_ORDER) raw) = Inr ps"
proof -
  let ?known = "\<lambda>x::string \<times> string. fst x \<in> set PRAYER_ORDER"
  let ?es = "sort_key order_key (filter ?known raw)"
  have loop: "normalize_loop cfg now ?es = Inr ps"
    using built normalize_loop_filter [of cfg now "sort_key order_key raw"]
    by (simp add: normalize_times_def filter_sort)
  have "distinct (map fst (filter ?known raw))"
    using dist by (simp add: distinct_map_filter)
  then have d: "distinct (map fst ?es)"
    using mset_eq_imp_distinct_iff [of "map fst ?es" "map fst (filter ?known raw)"] by simp
  have "subseq (map fst ?es) PRAYER_ORDER"
    by (rule canonical_subseq) (use d in auto)
  with normalize_loop_names [OF loop]
  have sub: "subseq (map name ps) PRAYER_ORDER"
    by (rule subseq_order.trans)
  have "distinct PRAYER_ORDER" by (simp add: PRAYER_ORDER_def)
  with sub have dn: "distinct (map name ps)"
    by (rule subseq_distinct)
  have perm: "normalize_times cfg now raw' = Inr ps" if m: "mset raw' = mset raw" for raw'
  proof -
    have m': "mset (filter ?known raw') = mset ?es" using m by simp
    have "distinct (map fst raw')"
      using dist mset_eq_imp_distinct_iff [of "map fst raw'" "map fst raw"] m by simp
    from order_key_inj_on [OF this]
    have "sort_key order_key (filter ?known raw') = ?es"
      by (rule sort_key_inj_key_eq [OF m']) simp
    then show ?thesis
      using loop normalize_loop_filter [of cfg now "sort_key order_key raw'"]
      by (simp add: normalize_times_def filter_sort)
  qed
  have "normalize_times cfg now (filter ?known raw) = Inr ps"
    using loop by (simp add: normalize_times_def)
  with sub dn perm show ?thesis by blast
qed

theorem C8_canonical_order_witness:
  "map_sum id (map name)
      (normalize_times empty_config 0
         [(''Isha'', ''19:45''), (''Imsak'', ''04:50''), (''Fajr'', ''05:12 (+03)''),
          (''Dhuhr'', ''12:05'')]) = Inr [''Fajr'', ''Dhuhr'', ''Isha'']
   \<and> subseq [''Fajr'', ''Dhuhr'', ''Isha''] PRAYER_ORDER
   \<and> normalize_times empty_config 0
         [(''Dhuhr'', ''12:05''), (''Fajr'', ''05:12 (+03)''), (''Imsak'', ''04:50''),
          (''Isha'', ''19:45'')]
     = normalize_times empty_config 0
         [(''Isha'', ''19:45''), (''Imsak'', ''04:50''), (''Fajr'', ''05:12 (+03)''),
          (''Dhuhr'', ''12:05'')]"
proof -
  let ?raw = "[(''Isha'', ''19:45''), (''Imsak'', ''04:50''), (''Fajr'', ''05:12 (+03)''),
          (''Dhuhr'', ''12:05'')]"
  let ?ps = "[\<lparr>name = ''Fajr'', time = 312 * us_per_minute, time_str = ''05:12'', enabled = True\<rparr>,
              \<lparr>name = ''Dhuhr'', time = 725 * us_per_minute, time_str = ''12:05'', enabled = True\<rparr>,
              \<lparr>name = ''Isha'', time = 1185 * us_per_minute, time_str = ''19:45'', enabled = True\<rparr>]"
  have built: "normalize_times empty_config 0 ?raw = Inr ?ps"
    by (simp add: empty_config_def parse_defs build_defs time_defs)
  have dist: "distinct (map fst ?raw)" by simp
  from C8_canonical_order [OF dist built]
  have sub: "subseq (map name ?ps) PRAYER_ORDER"
    and perm: "\<forall>raw'. mset raw' = mset ?raw \<longrightarrow> normalize_times empty_config 0 raw' = Inr ?ps"
    by blast+
  have "mset [(''Dhuhr'', ''12:05''), (''Fajr'', ''05:12 (+03)''), (''Imsak'', ''04:50''),
          (''Isha'', ''19:45'')] = mset ?raw" by simp
  with perm have "normalize_times empty_config 0
         [(''Dhuhr'', ''12:05''), (''Fajr'', ''05:12 (+03)''), (''Imsak'', ''04:50''),
          (''Isha'', ''19:45'')] = Inr ?ps" by blast
  with sub built show ?thesis by simp
qed

text \<open>
  C7. An entry without a colon is skipped and the rest of the schedule is built, and a
  trailing annotation is stripped. An entry with a colon whose hour or minute is not a
  number is not dropped: \<^verbatim>\<open>int()\<close> raises, the exception leaves
  \<^verbatim>\<open>_normalize_times\<close> and \<^verbatim>\<open>_async_update_data\<close>, and no schedule is built.
\<close>

theorem C7_malformed_entry_is_fatal:
  "normalize_times empty_config 0 [(''Fajr'', ''--:--''), (''Dhuhr'', ''12:05'')] = Inl ValueError
   \<and> async_update_data empty_config
        (Inr [(''Fajr'', ''--:--''), (''Dhuhr'', ''12:05'')]) (Inl UpdateFailed) 0 0 None
       = Inl ValueError
   \<and> map_sum id (map (\<lambda>p. (name p, time_str p)))
        (normalize_times empty_config 0 [(''Fajr'', ''0512''), (''Dhuhr'', ''12:05'')])
       = Inr [(''Dhuhr'', ''12:05'')]
   \<and> parse_time ''Fajr'' ''05:12 (EST)'' = Inr (Some (5, 12))"
  by (simp add: async_update_data_def PrayerData_def SOURCE_QATAR_MOI_def
        parse_defs build_defs time_defs empty_config_def)

subsection \<open>Selection\<close>

lemma find_next_prayer_find:
  "find_next_prayer cfg played now ps =
     find (\<lambda>p. enabled p \<and> name p \<notin> played \<and>
               now < time p - timedelta_minutes (this_offset cfg p)) ps"
  by (induction ps) auto

lemma sensor_loop_find:
  "sensor_loop now ps = find (\<lambda>p. enabled p \<and> now < time p) ps"
  by (induction ps) auto

text \<open>
  C1. The scheduler's selection is the first prayer of the schedule, in list order, that
  is enabled, is not in the played-set, and whose time minus its offset (the configured
  offset for Sunrise, zero for every other prayer) is strictly after \<open>now\<close>; it is
  \<open>None\<close> when there is no such prayer. With Fajr 05:00 enabled, Sunrise 06:30 disabled,
  Dhuhr 12:00 enabled and \<open>now\<close> = 05:30 the selection is Dhuhr.
\<close>

theorem C1_next_prayer_selection:
  "find_next_prayer cfg played now ps =
     find (\<lambda>p. enabled p \<and> name p \<notin> played \<and>
               now < time p - timedelta_minutes
                        (if name p = ''Sunrise'' then get_or (offset_minutes cfg) 0 else 0)) ps
   \<and> find_next_prayer cfg {} ((5 * 60 + 30) * us_per_minute)
        [prayer_at ''Fajr'' 5 0 True, prayer_at ''Sunrise'' 6 30 False,
         prayer_at ''Dhuhr'' 12 0 True]
      = Some (prayer_at ''Dhuhr'' 12 0 True)"
proof
  show "find_next_prayer cfg played now ps =
     find (\<lambda>p. enabled p \<and> name p \<notin> played \<and>
               now < time p - timedelta_minutes
                        (if name p = ''Sunrise'' then get_or (offset_minutes cfg) 0 else 0)) ps"
    by (simp add: find_next_prayer_find this_offset_def DEFAULT_OFFSET_MINUTES_def)
next
  show "find_next_prayer cfg {} ((5 * 60 + 30) * us_per_minute)
        [prayer_at ''Fajr'' 5 0 True, prayer_at ''Sunrise'' 6 30 False,
         prayer_at ''Dhuhr'' 12 0 True]
      = Some (prayer_at ''Dhuhr'' 12 0 True)"
    by (simp add: prayer_at_def this_offset_def time_defs)
qed

theorem C1_next_prayer_selection_witness:
  "find_next_prayer (empty_config\<lparr>offset_minutes := Some 20\<rparr>) {''Fajr''}
        ((6 * 60 + 15) * us_per_minute)
        [prayer_at ''Fajr'' 7 0 True, prayer_at ''Sunrise'' 6 30 True,
         prayer_at ''Dhuhr'' 12 0 True]
      = Some (prayer_at ''Dhuhr'' 12 0 True)"
  using C1_next_prayer_selection [of "empty_config\<lparr>offset_minutes := Some 20\<rparr>" "{''Fajr''}"
      "(6 * 60 + 15) * us_per_minute"
      "[prayer_at ''Fajr'' 7 0 True, prayer_at ''Sunrise'' 6 30 True,
        prayer_at ''Dhuhr'' 12 0 True]"]
  by (simp add: prayer_at_def empty_config_def get_or_def time_defs)

text \<open>
  C5. The selection never returns a prayer whose name is in the played-set, whatever
  its time; over a schedule in which every prayer is disabled or played it returns
  \<open>None\<close>. The timer callback applies the same guard: fired for a prayer that is
  already played, it only re-arms.
\<close>

theorem C5_played_set_guard:
  "(\<forall>p. find_next_prayer cfg played now ps = Some p \<longrightarrow> name p \<notin> played)
   \<and> ((\<forall>p\<in>set ps. \<not> enabled p \<or> name p \<in> played) \<longrightarrow>
        find_next_prayer cfg played now ps = None)
   \<and> (entry_store h = Some st \<and> already_played st nm \<longrightarrow>
        prayer_callback e cfg nm h = Inr (schedule_next_prayer (clock e) cfg h))"
proof (intro conjI allI impI)
  fix p assume "find_next_prayer cfg played now ps = Some p"
  then show "name p \<notin> played"
    by (induction ps) (auto split: if_splits)
next
  assume "\<forall>p\<in>set ps. \<not> enabled p \<or> name p \<in> played"
  then show "find_next_prayer cfg played now ps = None"
    by (induction ps) auto
next
  assume "entry_store h = Some st \<and> already_played st nm"
  then show "prayer_callback e cfg nm h = Inr (schedule_next_prayer (clock e) cfg h)"
    by (simp add: prayer_callback_def)
qed

theorem C5_played_set_guard_witness:
  "find_next_prayer empty_config {''Dhuhr''} (5 * 60 * us_per_minute)
      (prayers (sample_data {''Dhuhr''})) = None
   \<and> find_next_prayer empty_config {''Fajr''} (4 * 60 * us_per_minute)
      (prayers (sample_data {''Fajr''})) = Some (prayer_at ''Dhuhr'' 12 0 True)
   \<and> ''Dhuhr'' \<notin> {''Fajr''}
   \<and> prayer_callback (sample_env False) empty_config ''Fajr'' (sample_hass {''Fajr''})
     = Inr (schedule_next_prayer (5 * 60 * us_per_minute) empty_config (sample_hass {''Fajr''}))"
  using C5_played_set_guard [of empty_config "{''Dhuhr''}" "5 * 60 * us_per_minute"
          "prayers (sample_data {''Dhuhr''})" "sample_hass {''Fajr''}"
          "(initial_store (Some (sample_data {''Fajr''})))
          \<lparr>full_audio_file := Some ''/config/www/azan/azan_full.mp3'', unsub_timer := Some 0\<rparr>"
          "''Fajr''" "sample_env False"]
        C5_played_set_guard [of empty_config "{''Fajr''}" "4 * 60 * us_per_minute"
          "prayers (sample_data {''Fajr''})"]
  by (simp add: sample_defs already_played_def this_offset_def time_defs get_or_def DEFAULT_OFFSET_MINUTES_def)

subsection \<open>Refresh\<close>

text \<open>
  C4. A refresh that succeeds returns a schedule dated today whose played-set is the
  previous schedule's played-set when that schedule has today's date, and is empty when
  the date differs or there is no previous schedule.
\<close>

theorem C4_day_rollover:
  "async_update_data cfg fetch_qatar_moi fetch_aladhan clock_today clock_norm prev = Inr d \<Longrightarrow>
     date d = date_of clock_today \<and>
     played_today d =
       (case prev of
          None \<Rightarrow> {}
        | Some old \<Rightarrow> if date old = date_of clock_today then played_today old else {})"
  by (auto simp: async_update_data_def PrayerData_def Let_def
           split: sum.splits option.splits if_splits)

theorem C4_day_rollover_witness:
  "async_update_data empty_config
       (Inr [(''Fajr'', ''05:12'')]) (Inl UpdateFailed)
       (us_per_day + us_per_minute) (us_per_day + 2 * us_per_minute)
       (Some \<lparr>prayers = [], date = 0, played_today = {''Fajr'', ''Dhuhr''}\<rparr>)
     = Inr \<lparr>prayers = [\<lparr>name = ''Fajr'', time = us_per_day + 312 * us_per_minute,
                           time_str = ''05:12'', enabled = True\<rparr>],
            date = 1, played_today = {}\<rparr>
   \<and> played_today \<lparr>prayers = [\<lparr>name = ''Fajr'', time = us_per_day + 312 * us_per_minute,
                           time_str = ''05:12'', enabled = True\<rparr>],
            date = 1, played_today = {}\<rparr> = {}"
proof -
  have run: "async_update_data empty_config
       (Inr [(''Fajr'', ''05:12'')]) (Inl UpdateFailed)
       (us_per_day + us_per_minute) (us_per_day + 2 * us_per_minute)
       (Some \<lparr>prayers = [], date = 0, played_today = {''Fajr'', ''Dhuhr''}\<rparr>)
     = Inr \<lparr>prayers = [\<lparr>name = ''Fajr'', time = us_per_day + 312 * us_per_minute,
                           time_str = ''05:12'', enabled = True\<rparr>],
            date = 1, played_today = {}\<rparr>"
    by (simp add: async_update_data_def empty_config_def SOURCE_QATAR_MOI_def parse_defs
          build_defs time_defs PrayerData_def)
  from C4_day_rollover [OF run] run show ?thesis
    by (simp add: time_defs)
qed

subsection \<open>Scheduling and playback\<close>

lemma schedule_next_prayer_arms:
  assumes "entry_store h = Some st" and "coordinator_data st = Some d"
  shows "schedule_next_prayer now cfg h =
     h\<lparr>entry_store := Some (st\<lparr>unsub_timer := Some (next_handle h)\<rparr>),
       timers := (case unsub_timer st of None \<Rightarrow> timers h
                  | Some u \<Rightarrow> filter (\<lambda>x. fst x \<noteq> u) (timers h))
                 @ [(next_handle h,
                     (case find_next_prayer cfg (played_today d) now (prayers d) of
                        None \<Rightarrow> (tomorrow_0001 now, MidnightRefresh)
                      | Some p \<Rightarrow> (time p - timedelta_minutes (this_offset cfg p),
                                    PrayerCallback (name p))))],
       next_handle := Suc (next_handle h)\<rparr>"
  using assms
  by (auto simp: schedule_next_prayer_def async_track_point_in_time_def unsub_def set_store_def
        Let_def split: option.splits)

lemma play_azan_raised:
  assumes st: "entry_store h = Some st"
    and guard: "prayer_name = ''Test'' \<or> \<not> already_played st prayer_name"
    and audio: "resolve_audio e cfg st prayer_name = Some file"
    and url: "base_url e cfg (get_or (playback_mode cfg) PLAYBACK_MEDIA_PLAYER) = Some base"
    and disp: "dispatch e cfg (get_or (playback_mode cfg) PLAYBACK_MEDIA_PLAYER)
                 (base @ ''/local/azan/'' @ basename file) = (Raised, issued)"
  shows "play_azan e cfg prayer_name h =
     Inr (schedule_next_prayer (clock e) cfg
            (h\<lparr>calls := calls h @ issued,
               entry_store := Some (st\<lparr>is_playing := False, currently_playing := None\<rparr>)\<rparr>))"
  using assms by (auto simp: play_azan_def upd_store_def Let_def)

lemma play_azan_not_configured:
  assumes st: "entry_store h = Some st"
    and guard: "prayer_name = ''Test'' \<or> \<not> already_played st prayer_name"
    and audio: "resolve_audio e cfg st prayer_name = Some file"
    and url: "base_url e cfg (get_or (playback_mode cfg) PLAYBACK_MEDIA_PLAYER) = Some base"
    and disp: "fst (dispatch e cfg (get_or (playback_mode cfg) PLAYBACK_MEDIA_PLAYER)
                 (base @ ''/local/azan/'' @ basename file)) = NotConfigured"
  shows "play_azan e cfg prayer_name h =
     Inr (h\<lparr>entry_store := Some (st\<lparr>is_playing := True, currently_playing := Some prayer_name\<rparr>)\<rparr>)"
  using assms by (auto simp: play_azan_def upd_store_def Let_def split: prod.splits)

lemma call_all_not_NotConfigured: "fst (call_all e cs) \<noteq> NotConfigured"
  by (induction cs) (auto split: prod.splits)

lemma dispatch_NotConfigured_iff:
  "fst (dispatch e cfg mode url) = NotConfigured \<longleftrightarrow>
     (if mode = PLAYBACK_MEDIA_PLAYER
      then media_player cfg = None \<or> media_player cfg = Some (Single [])
           \<or> media_player cfg = Some (Many [])
      else \<not> truthy (notify_service cfg))"
  using call_all_not_NotConfigured
  by (auto simp: dispatch_def truthy_def split: option.splits media_player_cfg.splits)

lemma fire_prayer_timer_play:
  assumes "entry_store h = Some st" and "\<not> already_played st prayer_name"
  shows "fire_prayer_timer e cfg u prayer_name h = play_azan e cfg prayer_name (unsub u h)"
  using assms by (simp add: fire_prayer_timer_def prayer_callback_def unsub_def)

text \<open>
  The \<^verbatim>\<open>except\<close> path: when a service call of the dispatch raises, the played-set is
  unchanged, the playing state is cleared and a fresh scheduler timer is armed.
\<close>

lemma raised_dispatch_rearms:
  assumes st: "entry_store h = Some st"
    and data: "coordinator_data st = Some d"
    and guard: "prayer_name \<notin> played_today d"
    and audio: "resolve_audio e cfg st prayer_name = Some file"
    and url: "base_url e cfg (get_or (playback_mode cfg) PLAYBACK_MEDIA_PLAYER) = Some base"
    and disp: "fst (dispatch e cfg (get_or (playback_mode cfg) PLAYBACK_MEDIA_PLAYER)
                      (base @ ''/local/azan/'' @ basename file)) = Raised"
    and r: "r = play_azan e cfg prayer_name h \<or> r = fire_prayer_timer e cfg u prayer_name h"
  shows "\<exists>h' st'.
           r = Inr h' \<and> entry_store h' = Some st'
         \<and> coordinator_data st' = Some d
         \<and> \<not> is_playing st' \<and> currently_playing st' = None
         \<and> unsub_timer st' = Some (next_handle h)
         \<and> (next_handle h,
              (case find_next_prayer cfg (played_today d) (clock e) (prayers d) of
                 None \<Rightarrow> (tomorrow_0001 (clock e), MidnightRefresh)
               | Some p \<Rightarrow> (time p - timedelta_minutes (this_offset cfg p),
                             PrayerCallback (name p)))) \<in> set (timers h')"
proof -
  obtain issued where disp':
    "dispatch e cfg (get_or (playback_mode cfg) PLAYBACK_MEDIA_PLAYER)
       (base @ ''/local/azan/'' @ basename file) = (Raised, issued)"
    using disp by (cases "dispatch e cfg (get_or (playback_mode cfg) PLAYBACK_MEDIA_PLAYER)
       (base @ ''/local/azan/'' @ basename file)") auto
  have np: "\<not> already_played st prayer_name"
    using data guard by (simp add: already_played_def)
  have play: "\<exists>h' st'.
           play_azan e cfg prayer_name g = Inr h' \<and> entry_store h' = Some st'
         \<and> coordinator_data st' = Some d
         \<and> \<not> is_playing st' \<and> currently_playing st' = None
         \<and> unsub_timer st' = Some (next_handle g)
         \<and> (next_handle g,
              (case find_next_prayer cfg (played_today d) (clock e) (prayers d) of
                 None \<Rightarrow> (tomorrow_0001 (clock e), MidnightRefresh)
               | Some p \<Rightarrow> (time p - timedelta_minutes (this_offset cfg p),
                             PrayerCallback (name p)))) \<in> set (timers h')"
    if g: "entry_store g = Some st" for g
  proof -
    let ?g1 = "g\<lparr>calls := calls g @ issued,
               entry_store := Some (st\<lparr>is_playing := False, currently_playing := None\<rparr>)\<rparr>"
    have "play_azan e cfg prayer_name g = Inr (schedule_next_prayer (clock e) cfg ?g1)"
      using play_azan_raised [OF g _ audio url disp'] np by simp
    moreover have "entry_store ?g1 = Some (st\<lparr>is_playing := False, currently_playing := None\<rparr>)"
      by simp
    moreover have "coordinator_data (st\<lparr>is_playing := False, currently_playing := None\<rparr>) = Some d"
      using data by simp
    ultimately show ?thesis
      using schedule_next_prayer_arms [of ?g1 "st\<lparr>is_playing := False, currently_playing := None\<rparr>" d "clock e" cfg]
      by simp
  qed
  from r show ?thesis
  proof
    assume "r = play_azan e cfg prayer_name h"
    with play [OF st] show ?thesis by simp
  next
    assume "r = fire_prayer_timer e cfg u prayer_name h"
    then have "r = play_azan e cfg prayer_name (unsub u h)"
      using fire_prayer_timer_play [OF st np] by simp
    moreover have "entry_store (unsub u h) = Some st" "next_handle (unsub u h) = next_handle h"
      using st by (simp_all add: unsub_def)
    ultimately show ?thesis using play [of "unsub u h"] by simp
  qed
qed

lemma schedule_next_prayer_no_data:
  assumes "entry_store h = Some st" and "coordinator_data st = None"
  shows "schedule_next_prayer now cfg h =
     (case unsub_timer st of None \<Rightarrow> h
      | Some u \<Rightarrow> h\<lparr>entry_store := Some (st\<lparr>unsub_timer := None\<rparr>),
                    timers := filter (\<lambda>x. fst x \<noteq> u) (timers h)\<rparr>)"
  using assms
  by (auto simp: schedule_next_prayer_def async_track_point_in_time_def unsub_def set_store_def
        Let_def split: option.splits)

lemma sample_armed:
  "schedule_next_prayer (4 * 60 * us_per_minute) empty_config (sample_hass0 {}) = sample_hass {}"
  by (simp add: schedule_next_prayer_def async_track_point_in_time_def unsub_def set_store_def
        sample_defs this_offset_def time_defs get_or_def DEFAULT_OFFSET_MINUTES_def)

text \<open>
  C6. A firing whose playback fails must leave the prayer unmarked and re-arm the
  scheduler. The code does so when a service call raises and when no audio file is
  available (the last two evaluations: Dhuhr is armed). It does not when the target of
  the dispatch is not configured, where \<^verbatim>\<open>_play_azan\<close> returns inside the \<^verbatim>\<open>try\<close>
  block, nor when \<^verbatim>\<open>get_url\<close> raises: after the firing of the Fajr timer, the only
  outstanding one, no timer is outstanding (the first three evaluations).
\<close>

theorem C6_failed_firing_not_rearmed:
  "fire_prayer_timer (sample_env False) empty_config 0 ''Fajr'' (sample_hass {}) =
     Inr ((sample_hass {})\<lparr>entry_store :=
        Some ((initial_store (Some (sample_data {})))
          \<lparr>full_audio_file := Some ''/config/www/azan/azan_full.mp3'', unsub_timer := Some 0,
           is_playing := True, currently_playing := Some ''Fajr''\<rparr>),
        timers := []\<rparr>)
   \<and> fire_prayer_timer (sample_env False)
        (empty_config\<lparr>playback_mode := Some PLAYBACK_ANDROID_VLC,
                       external_url := Some ''https://ha.example.org/''\<rparr>)
        0 ''Fajr'' (sample_hass {}) =
     Inr ((sample_hass {})\<lparr>entry_store :=
        Some ((initial_store (Some (sample_data {})))
          \<lparr>full_audio_file := Some ''/config/www/azan/azan_full.mp3'', unsub_timer := Some 0,
           is_playing := True, currently_playing := Some ''Fajr''\<rparr>),
        timers := []\<rparr>)
   \<and> fire_prayer_timer ((sample_env False)\<lparr>get_url_internal := None\<rparr>)
        (empty_config\<lparr>media_player := Some (Single ''media_player.hall'')\<rparr>)
        0 ''Fajr'' (sample_hass {}) = Inl NoURLAvailableError
   \<and> map_sum id timers
        (fire_prayer_timer (sample_env True)
          (empty_config\<lparr>media_player := Some (Single ''media_player.hall'')\<rparr>)
          0 ''Fajr'' (sample_hass {}))
     = Inr [(1, 12 * 60 * us_per_minute, PrayerCallback ''Dhuhr'')]
   \<and> map_sum id timers
        (fire_prayer_timer ((sample_env False)\<lparr>path_exists := (\<lambda>p. False)\<rparr>) empty_config
          0 ''Fajr'' (sample_hass {}))
     = Inr [(1, 12 * 60 * us_per_minute, PrayerCallback ''Dhuhr'')]"
  apply (intro conjI)
  subgoal by (simp add: fire_prayer_timer_def prayer_callback_def play_azan_def upd_store_def
        unsub_def already_played_def sample_defs play_defs)
  subgoal by (simp add: fire_prayer_timer_def prayer_callback_def play_azan_def upd_store_def
        unsub_def already_played_def sample_defs play_defs PLAYBACK_ANDROID_VLC_def)
  subgoal by (simp add: fire_prayer_timer_def prayer_callback_def play_azan_def upd_store_def
        unsub_def already_played_def sample_defs play_defs)
  subgoal by (simp add: fire_prayer_timer_def prayer_callback_def play_azan_def upd_store_def
        unsub_def already_played_def sample_defs play_defs
        schedule_next_prayer_def async_track_point_in_time_def set_store_def
        this_offset_def time_defs DEFAULT_OFFSET_MINUTES_def)
  subgoal by (simp add: fire_prayer_timer_def prayer_callback_def play_azan_def upd_store_def
        unsub_def already_played_def sample_defs play_defs
        schedule_next_prayer_def async_track_point_in_time_def set_store_def
        this_offset_def time_defs DEFAULT_OFFSET_MINUTES_def)
  done

text \<open>
  C9, as the code has it. When the playback mode is \<^verbatim>\<open>media_player\<close> and no media
  player is configured, or the mode is another one (Android VLC) and no notify service is
  configured, \<^verbatim>\<open>_play_azan\<close> for a prayer that is not yet played and whose audio and URL
  resolved returns with \<^verbatim>\<open>is_playing\<close> set and \<^verbatim>\<open>currently_playing\<close> the prayer name
  and nothing else changed: the played-set, the playback-reset handle, the scheduler
  handle and the outstanding timers are as before, so no timer is armed. Started by the
  firing of a timer it only removes that timer; when that timer was armed by
  \<^verbatim>\<open>_schedule_next_prayer\<close> on a host without timers, it was the only one and none is
  outstanding afterwards. The Status sensor then reads \<^verbatim>\<open>downloading\<close> while a
  download is in progress and \<^verbatim>\<open>playing\<close> otherwise.
\<close>

theorem C9_unconfigured_target_stays_playing:
  assumes st: "entry_store h = Some st"
    and guard: "\<not> already_played st prayer_name"
    and audio: "resolve_audio e cfg st prayer_name = Some file"
    and url: "base_url e cfg (get_or (playback_mode cfg) PLAYBACK_MEDIA_PLAYER) = Some base"
    and unconf: "if get_or (playback_mode cfg) PLAYBACK_MEDIA_PLAYER = PLAYBACK_MEDIA_PLAYER
                 then media_player cfg = None \<or> media_player cfg = Some (Single [])
                      \<or> media_player cfg = Some (Many [])
                 else \<not> truthy (notify_service cfg)"
  shows "play_azan e cfg prayer_name h =
           Inr (h\<lparr>entry_store :=
                    Some (st\<lparr>is_playing := True, currently_playing := Some prayer_name\<rparr>)\<rparr>)
       \<and> fire_prayer_timer e cfg u prayer_name h =
           Inr (h\<lparr>entry_store :=
                    Some (st\<lparr>is_playing := True, currently_playing := Some prayer_name\<rparr>),
                  timers := filter (\<lambda>x. fst x \<noteq> u) (timers h)\<rparr>)
       \<and> status_native_value
              (h\<lparr>entry_store :=
                    Some (st\<lparr>is_playing := True, currently_playing := Some prayer_name\<rparr>)\<rparr>)
              = (if is_downloading st then ''downloading'' else ''playing'')
       \<and> (timers h0 = [] \<and> coordinator_data st \<noteq> None
            \<and> h = schedule_next_prayer now cfg h0 \<and> u = next_handle h0 \<longrightarrow>
            (\<exists>t cb. timers h = [(u, t, cb)])
            \<and> map_sum id timers (fire_prayer_timer e cfg u prayer_name h) = Inr [])"
proof (intro conjI impI)
  have nc: "fst (dispatch e cfg (get_or (playback_mode cfg) PLAYBACK_MEDIA_PLAYER)
                 (base @ ''/local/azan/'' @ basename file)) = NotConfigured"
    using unconf by (simp only: dispatch_NotConfigured_iff)
  show "play_azan e cfg prayer_name h =
           Inr (h\<lparr>entry_store :=
                    Some (st\<lparr>is_playing := True, currently_playing := Some prayer_name\<rparr>)\<rparr>)"
    using play_azan_not_configured [OF st _ audio url nc] guard by simp
  have "entry_store (unsub u h) = Some st"
    using st by (simp add: unsub_def)
  from play_azan_not_configured [OF this _ audio url nc] guard
  have "play_azan e cfg prayer_name (unsub u h) =
      Inr ((unsub u h)\<lparr>entry_store :=
                    Some (st\<lparr>is_playing := True, currently_playing := Some prayer_name\<rparr>)\<rparr>)"
    by simp
  then show fire: "fire_prayer_timer e cfg u prayer_name h =
           Inr (h\<lparr>entry_store :=
                    Some (st\<lparr>is_playing := True, currently_playing := Some prayer_name\<rparr>),
                  timers := filter (\<lambda>x. fst x \<noteq> u) (timers h)\<rparr>)"
    using fire_prayer_timer_play [OF st guard] by (simp add: unsub_def)
  show "status_native_value
              (h\<lparr>entry_store :=
                    Some (st\<lparr>is_playing := True, currently_playing := Some prayer_name\<rparr>)\<rparr>)
              = (if is_downloading st then ''downloading'' else ''playing'')"
    by (simp add: status_native_value_def)
  assume pre: "timers h0 = [] \<and> coordinator_data st \<noteq> None
            \<and> h = schedule_next_prayer now cfg h0 \<and> u = next_handle h0"
  then obtain d where d: "coordinator_data st = Some d" by auto
  have st0: "\<exists>st0. entry_store h0 = Some st0 \<and> coordinator_data st0 = Some d"
  proof (cases "entry_store h0")
    case None
    with pre st show ?thesis by (simp add: schedule_next_prayer_def)
  next
    case (Some st0)
    show ?thesis
    proof (cases "coordinator_data st0")
      case None
      with Some pre st d show ?thesis
        by (auto simp: schedule_next_prayer_no_data unsub_def split: option.splits)
    next
      case (Some d0)
      with \<open>entry_store h0 = Some st0\<close> pre st d show ?thesis
        by (auto simp: schedule_next_prayer_arms)
    qed
  qed
  then obtain st0 where s0: "entry_store h0 = Some st0" "coordinator_data st0 = Some d" by blast
  from schedule_next_prayer_arms [OF s0, of now cfg] pre
  show one: "\<exists>t cb. timers h = [(u, t, cb)]"
    by (auto split: option.splits)
  then show "map_sum id timers (fire_prayer_timer e cfg u prayer_name h) = Inr []"
    using fire by auto
qed

theorem C9_unconfigured_target_stays_playing_witness:
  "play_azan (sample_env False) empty_config ''Fajr'' (sample_hass {}) =
     Inr ((sample_hass {})\<lparr>entry_store :=
        Some ((initial_store (Some (sample_data {})))
          \<lparr>full_audio_file := Some ''/config/www/azan/azan_full.mp3'', unsub_timer := Some 0,
           is_playing := True, currently_playing := Some ''Fajr''\<rparr>)\<rparr>)
   \<and> status_native_value ((sample_hass {})\<lparr>entry_store :=
        Some ((initial_store (Some (sample_data {})))
          \<lparr>full_audio_file := Some ''/config/www/azan/azan_full.mp3'', unsub_timer := Some 0,
           is_playing := True, currently_playing := Some ''Fajr''\<rparr>)\<rparr>) = ''playing''
   \<and> map_sum id timers
        (fire_prayer_timer (sample_env False) empty_config 0 ''Fajr''
           (schedule_next_prayer (4 * 60 * us_per_minute) empty_config (sample_hass0 {})))
     = Inr []"
proof -
  let ?st = "(initial_store (Some (sample_data {})))
          \<lparr>full_audio_file := Some ''/config/www/azan/azan_full.mp3'', unsub_timer := Some 0\<rparr>"
  have st: "entry_store (sample_hass {}) = Some ?st"
    by (simp add: sample_hass_def)
  have guard: "\<not> already_played ?st ''Fajr''"
    by (simp add: already_played_def sample_defs)
  have audio: "resolve_audio (sample_env False) empty_config ?st ''Fajr''
                 = Some ''/config/www/azan/azan_full.mp3''"
    by (simp add: sample_defs play_defs)
  have url: "base_url (sample_env False) empty_config
               (get_or (playback_mode empty_config) PLAYBACK_MEDIA_PLAYER)
             = Some ''http://homeassistant.local:8123''"
    by (simp add: sample_defs play_defs)
  have unconf: "if get_or (playback_mode empty_config) PLAYBACK_MEDIA_PLAYER = PLAYBACK_MEDIA_PLAYER
                 then media_player empty_config = None \<or> media_player empty_config = Some (Single [])
                      \<or> media_player empty_config = Some (Many [])
                 else \<not> truthy (notify_service empty_config)"
    by (simp add: sample_defs play_defs)
  have pre: "timers (sample_hass0 {}) = [] \<and> coordinator_data ?st \<noteq> None
            \<and> sample_hass {} = schedule_next_prayer (4 * 60 * us_per_minute) empty_config
                                  (sample_hass0 {})
            \<and> 0 = next_handle (sample_hass0 {})"
    apply (intro conjI)
    subgoal by (simp add: sample_hass0_def)
    subgoal by (simp add: initial_store_def)
    subgoal by (rule sample_armed [symmetric])
    subgoal by (simp add: sample_hass0_def)
    done
  from C9_unconfigured_target_stays_playing [OF st guard audio url unconf, of 0 "sample_hass0 {}" "4 * 60 * us_per_minute"] pre
  have "play_azan (sample_env False) empty_config ''Fajr'' (sample_hass {}) =
           Inr ((sample_hass {})\<lparr>entry_store :=
                    Some (?st\<lparr>is_playing := True, currently_playing := Some ''Fajr''\<rparr>)\<rparr>)"
    and "status_native_value
              ((sample_hass {})\<lparr>entry_store :=
                    Some (?st\<lparr>is_playing := True, currently_playing := Some ''Fajr''\<rparr>)\<rparr>)
              = (if is_downloading ?st then ''downloading'' else ''playing'')"
    and "map_sum id timers
           (fire_prayer_timer (sample_env False) empty_config 0 ''Fajr'' (sample_hass {})) = Inr []"
    by blast+
  then show ?thesis
    unfolding sample_armed by (simp add: initial_store_def)
qed

text \<open>
  The claim's two conclusions do not hold in general: after a manual play the armed Fajr
  timer is still outstanding, and during a download the Status sensor reads
  \<^verbatim>\<open>downloading\<close>.
\<close>

theorem C9_unconfigured_target_stays_playing_counterexample:
  "map_sum id timers (play_azan (sample_env False) empty_config ''Fajr'' (sample_hass {}))
     = Inr [(0, 5 * 60 * us_per_minute, PrayerCallback ''Fajr'')]
   \<and> map_sum id status_native_value
        (play_azan (sample_env False) empty_config ''Fajr''
           (upd_store (\<lambda>s. s\<lparr>is_downloading := True\<rparr>) (sample_hass {})))
     = Inr ''downloading''"
  by (simp add: play_azan_def upd_store_def already_played_def status_native_value_def
        sample_defs play_defs)

subsection \<open>Sensor against scheduler\<close>

text \<open>
  C10. The Next Prayer sensor reports the first enabled prayer whose raw time is strictly
  after \<open>now\<close>: it ignores the played-set and applies no offset, whereas the scheduler
  skips played prayers and subtracts the Sunrise offset. So they can differ: with Fajr
  marked played at 04:00, before its time 05:00, the sensor reports Fajr while the
  scheduler selects Dhuhr and arms the timer for Dhuhr; with Sunrise 06:30 enabled, an
  offset of 30 minutes and \<open>now\<close> = 06:15 the sensor reports Sunrise while the scheduler
  selects Dhuhr.
\<close>

theorem C10_sensor_differs_from_scheduler:
  "get_next_prayer (Some d) now = find (\<lambda>p. enabled p \<and> now < time p) (prayers d)
   \<and> find_next_prayer cfg (played_today d) now (prayers d) =
       find (\<lambda>p. enabled p \<and> name p \<notin> played_today d \<and>
                 now < time p - timedelta_minutes (this_offset cfg p)) (prayers d)
   \<and> next_prayer_native_value (Some (sample_data {''Fajr''})) (4 * 60 * us_per_minute)
       = Some ''Fajr''
   \<and> map_option name (find_next_prayer empty_config {''Fajr''} (4 * 60 * us_per_minute)
                         (prayers (sample_data {''Fajr''}))) = Some ''Dhuhr''
   \<and> map (\<lambda>x. snd (snd x))
         (timers (schedule_next_prayer (4 * 60 * us_per_minute) empty_config
                    (sample_hass {''Fajr''}))) = [PrayerCallback ''Dhuhr'']
   \<and> next_prayer_native_value
        (Some \<lparr>prayers = [prayer_at ''Sunrise'' 6 30 True, prayer_at ''Dhuhr'' 12 0 True],
               date = 0, played_today = {}\<rparr>) ((6 * 60 + 15) * us_per_minute)
       = Some ''Sunrise''
   \<and> map_option name
        (find_next_prayer (empty_config\<lparr>offset_minutes := Some 30\<rparr>) {}
           ((6 * 60 + 15) * us_per_minute)
           [prayer_at ''Sunrise'' 6 30 True, prayer_at ''Dhuhr'' 12 0 True]) = Some ''Dhuhr''"
  apply (intro conjI)
  subgoal by (simp add: get_next_prayer_def sensor_loop_find)
  subgoal by (rule find_next_prayer_find)
  subgoal by (simp add: get_next_prayer_def next_prayer_native_value_def sensor_loop_find
        schedule_next_prayer_def async_track_point_in_time_def unsub_def set_store_def
        sample_defs this_offset_def time_defs get_or_def DEFAULT_OFFSET_MINUTES_def)
  subgoal by (simp add: get_next_prayer_def next_prayer_native_value_def sensor_loop_find
        schedule_next_prayer_def async_track_point_in_time_def unsub_def set_store_def
        sample_defs this_offset_def time_defs get_or_def DEFAULT_OFFSET_MINUTES_def)
  subgoal by (simp add: get_next_prayer_def next_prayer_native_value_def sensor_loop_find
        schedule_next_prayer_def async_track_point_in_time_def unsub_def set_store_def
        sample_defs this_offset_def time_defs get_or_def DEFAULT_OFFSET_MINUTES_def)
  subgoal by (simp add: get_next_prayer_def next_prayer_native_value_def sensor_loop_find
        schedule_next_prayer_def async_track_point_in_time_def unsub_def set_store_def
        sample_defs this_offset_def time_defs get_or_def DEFAULT_OFFSET_MINUTES_def)
  subgoal by (simp add: get_next_prayer_def next_prayer_native_value_def sensor_loop_find
        schedule_next_prayer_def async_track_point_in_time_def unsub_def set_store_def
        sample_defs this_offset_def time_defs get_or_def DEFAULT_OFFSET_MINUTES_def)
  done

theorem C10_sensor_differs_from_scheduler_witness:
  "get_next_prayer (Some (sample_data {''Fajr''})) (4 * 60 * us_per_minute)
      = Some (prayer_at ''Fajr'' 5 0 True)"
  using C10_sensor_differs_from_scheduler [of "sample_data {''Fajr''}" "4 * 60 * us_per_minute"]
  by (simp add: sample_defs time_defs)

end
